theory Spec2Isabelle
  imports Main "HOL-Library.AList" "HOL-Library.FSet"
begin

section \<open>Data model of the asynchronous job orchestrator\<close>

text \<open>
  The embedding follows \<^verbatim>\<open>job_orchestrator.py\<close>. The four statuses are those of
  \<^verbatim>\<open>_KNOWN_JOB_STATUSES\<close>.
\<close>

datatype AsyncJobStatus = RUNNING | COMPLETED | FAILED | TIMED_OUT

text \<open>
  Modelled from the spec: the class \<^verbatim>\<open>AsyncJob\<close> (module \<^verbatim>\<open>job\<close>) is not among the
  sources. A job is an opaque unit with a stable remote identifier and the parameters
  (the slice) that produced it; a partition holds its jobs as keys that are unique by
  the identity of the job, which \<open>job_obj\<close> stands for. Its current status is mutable
  and refreshed by the repository: the orchestrator reads it through
  \<^verbatim>\<open>job.status()\<close>, the model from the state of the remote system, so a status is a
  function of the job that is passed to every reader. (The passing of time, by which a
  job may come to report a timeout, is part of that state.)
\<close>

record 'sl AsyncJob =
  job_obj :: nat
  api_job_id :: string
  job_parameters :: 'sl

text \<open>
  \<^verbatim>\<open>AsyncPartition\<close>: the dictionary \<^verbatim>\<open>_attempts_per_job\<close> is an association list in
  insertion order (a Python dict iterates in insertion order), the attempt counts are
  Python integers.
\<close>

record 'sl AsyncPartition =
  attempts_per_job :: "('sl AsyncJob \<times> int) list"
  stream_slice :: "'sl"

definition MAX_NUMBER_OF_ATTEMPTS :: int where
  "MAX_NUMBER_OF_ATTEMPTS = 3"

text \<open>\<^verbatim>\<open>AsyncPartition.__init__\<close>: \<^verbatim>\<open>{job: 1 for job in jobs}\<close>.\<close>

definition new_partition :: "'sl AsyncJob list \<Rightarrow> 'sl \<Rightarrow> 'sl AsyncPartition" where
  "new_partition js sl =
     \<lparr>attempts_per_job = foldl (\<lambda>d j. AList.update j 1 d) [] js, stream_slice = sl\<rparr>"

definition jobs :: "'sl AsyncPartition \<Rightarrow> 'sl AsyncJob list" where
  "jobs p = map fst (attempts_per_job p)"

definition has_reached_max_attempt :: "'sl AsyncPartition \<Rightarrow> bool" where
  "has_reached_max_attempt p =
     list_ex (\<lambda>attempt_count. attempt_count \<ge> MAX_NUMBER_OF_ATTEMPTS)
       (map snd (attempts_per_job p))"

text \<open>
  Exceptions. Failure types and the two uses of \<^verbatim>\<open>AirbyteTracedException\<close>: the one of
  \<^verbatim>\<open>_process_partitions_with_errors\<close> carries the dictionary of statuses by remote job
  id in its message, the one raised after the main loop carries the accumulated
  exceptions in its internal message. \<^verbatim>\<open>Raised n\<close> stands for an exception of any other
  class derived from \<^verbatim>\<open>Exception\<close>, raised by the repository, and \<^verbatim>\<open>RaisedBase n\<close> for
  one whose class derives from \<^verbatim>\<open>BaseException\<close> and not from \<^verbatim>\<open>Exception\<close>
  (\<^verbatim>\<open>KeyboardInterrupt\<close>, \<^verbatim>\<open>SystemExit\<close>): a clause \<^verbatim>\<open>except Exception\<close> does not
  catch it.
\<close>

datatype failure_type = system_error | config_error

datatype 'sl exn =
    ConcurrentJobLimitReached
  | ValueError_could_not_find_job
  | ValueError_max_attempt_reached 'sl
  | ValueError_unknown_intent
  | AirbyteTracedException failure_type "(string \<times> AsyncJobStatus) list" "'sl exn list"
  | Raised nat
  | RaisedBase nat

fun is_Exception :: "'sl exn \<Rightarrow> bool" where
  "is_Exception (RaisedBase n) = False"
| "is_Exception e = True"

text \<open>
  \<^verbatim>\<open>AsyncPartition.replace_job\<close>. The method mutates the partition and may raise, so
  the model returns the exception (if any) together with the partition as the method
  leaves it. \<^verbatim>\<open>pop(job_to_replace, None)\<close> looks the key up and deletes it.
\<close>

definition replace_job ::
  "'sl AsyncPartition \<Rightarrow> 'sl AsyncJob \<Rightarrow> 'sl AsyncJob list \<Rightarrow> 'sl exn option \<times> 'sl AsyncPartition"
where
  "replace_job p job_to_replace new_jobs =
     (let current_attempt_count = map_of (attempts_per_job p) job_to_replace;
          p1 = p\<lparr>attempts_per_job := AList.delete job_to_replace (attempts_per_job p)\<rparr>
      in case current_attempt_count of
           None \<Rightarrow> (Some ValueError_could_not_find_job, p1)
         | Some c \<Rightarrow>
             if c \<ge> MAX_NUMBER_OF_ATTEMPTS
             then (Some (ValueError_max_attempt_reached (stream_slice p)), p1)
             else (None,
                   p1\<lparr>attempts_per_job :=
                        foldl (\<lambda>d job. AList.update job (c + 1) d) (attempts_per_job p1) new_jobs\<rparr>))"

text \<open>
  \<^verbatim>\<open>AsyncPartition.status\<close>; \<open>st\<close> is \<^verbatim>\<open>job.status()\<close> at the time of the call.
\<close>

definition status :: "('sl AsyncJob \<Rightarrow> AsyncJobStatus) \<Rightarrow> 'sl AsyncPartition \<Rightarrow> AsyncJobStatus" where
  "status st p =
     (let statuses = set (map st (jobs p))
      in if statuses = {COMPLETED} then COMPLETED
         else if FAILED \<in> statuses then FAILED
         else if TIMED_OUT \<in> statuses then TIMED_OUT
         else RUNNING)"

section \<open>The job tracker\<close>

text \<open>
  Modelled from the spec: the class \<^verbatim>\<open>JobTracker\<close> (module \<^verbatim>\<open>job_tracker\<close>) is not among
  the sources. The spec describes it as the admission state that bounds the jobs in
  flight: a number of slots, each outstanding slot reserved or bound. A slot is named
  by the handle that the reservation returned or by the remote id of the job it was
  bound to; the tracker holds the outstanding slots, the configured maximum and, to
  hand out handles, the next unused number.
\<close>

datatype slot_id = Intent nat | JobId string

record JobTracker =
  slots :: "slot_id fset"
  limit :: nat
  next_intent :: nat

text \<open>
  Modelled from the spec: reserving a slot (\<^verbatim>\<open>try_to_get_intent\<close> in the orchestrator's
  calls) fails with the limit-reached condition when no slot is available, that is
  when the number of outstanding slots has reached the configured maximum; otherwise
  it hands out a new handle, which is then outstanding.
\<close>

definition try_to_get_intent :: "JobTracker \<Rightarrow> 'sl exn + (slot_id \<times> JobTracker)" where
  "try_to_get_intent t =
     (if fcard (slots t) \<ge> limit t then Inl ConcurrentJobLimitReached
      else Inr (Intent (next_intent t),
                t\<lparr>slots := finsert (Intent (next_intent t)) (slots t),
                  next_intent := Suc (next_intent t)\<rparr>))"

text \<open>
  Modelled from the spec: binding (\<^verbatim>\<open>add_job\<close>) associates a previously reserved slot,
  or on a retry the slot of the prior job, with a remote job id: the slot is from then
  on named by that id. A slot that is not outstanding is rejected.
\<close>

definition add_job :: "slot_id \<Rightarrow> string \<Rightarrow> JobTracker \<Rightarrow> 'sl exn + JobTracker" where
  "add_job intent_or_job_id job_id t =
     (if intent_or_job_id |\<notin>| slots t then Inl ValueError_unknown_intent
      else Inr (t\<lparr>slots := finsert (JobId job_id) (slots t |-| {|intent_or_job_id|})\<rparr>))"

text \<open>
  Modelled from the spec: releasing (\<^verbatim>\<open>remove_job\<close>) frees the slot of the given name,
  a handle or a remote job id, and never fails.
\<close>

definition remove_job :: "slot_id \<Rightarrow> JobTracker \<Rightarrow> JobTracker" where
  "remove_job job_id t = t\<lparr>slots := slots t |-| {|job_id|}\<rparr>"

section \<open>The job repository\<close>

text \<open>
  \<^verbatim>\<open>AsyncJobRepository\<close> is an abstract interface; the orchestrator receives an
  implementation. It is a parameter of the model: a record of operations on the state
  \<open>'w\<close> of the remote system, each returning the exception it raises, if any.
  \<^verbatim>\<open>job.status()\<close> reads the status of a job in that state.
\<close>

record ('sl, 'w) AsyncJobRepository =
  start :: "'sl \<Rightarrow> 'w \<Rightarrow> ('sl exn + 'sl AsyncJob) \<times> 'w"
  update_jobs_status :: "'sl AsyncJob set \<Rightarrow> 'w \<Rightarrow> 'sl exn option \<times> 'w"
  abort :: "'sl AsyncJob \<Rightarrow> 'w \<Rightarrow> 'sl exn option \<times> 'w"
  job_status :: "'w \<Rightarrow> 'sl AsyncJob \<Rightarrow> AsyncJobStatus"

section \<open>The orchestrator\<close>

text \<open>
  The fields of \<^verbatim>\<open>AsyncJobOrchestrator\<close>. The slice iterator is the list of the slices
  not yet drawn; \<open>world\<close> is the state of the remote system behind the repository.
\<close>

record ('sl, 'w) AsyncJobOrchestrator =
  slice_iterator :: "'sl list"
  running_partitions :: "'sl AsyncPartition list"
  job_tracker :: JobTracker
  has_started_a_job :: bool
  has_consumed_every_slice :: bool
  non_breaking_exceptions :: "'sl exn list"
  world :: 'w

text \<open>\<^verbatim>\<open>__init__\<close> (the check of the known statuses holds for the four statuses).\<close>

definition init :: "'sl list \<Rightarrow> JobTracker \<Rightarrow> 'w \<Rightarrow> ('sl, 'w) AsyncJobOrchestrator" where
  "init slices tracker w =
     \<lparr>slice_iterator = slices,
      running_partitions = [],
      job_tracker = tracker,
      has_started_a_job = False,
      has_consumed_every_slice = True,
      non_breaking_exceptions = [],
      world = w\<rparr>"

text \<open>
  \<^verbatim>\<open>_start_job\<close>. \<^verbatim>\<open>if previous_job_id:\<close> is Python truthiness: neither \<^verbatim>\<open>None\<close> nor
  the empty string. An exception of \<^verbatim>\<open>try_to_get_intent\<close> is raised outside the
  \<^verbatim>\<open>try\<close> block. The clause \<^verbatim>\<open>except Exception\<close> releases the slot and raises the
  exception again; an exception that it does not catch propagates as it is.
\<close>

definition start_job ::
  "('sl, 'w) AsyncJobRepository \<Rightarrow> 'sl \<Rightarrow> string option \<Rightarrow> ('sl, 'w) AsyncJobOrchestrator
   \<Rightarrow> ('sl exn + 'sl AsyncJob) \<times> ('sl, 'w) AsyncJobOrchestrator"
where
  "start_job R sl previous_job_id s =
     (case (case previous_job_id of
              Some i \<Rightarrow> if i \<noteq> [] then Inr (JobId i, job_tracker s)
                        else try_to_get_intent (job_tracker s)
            | None \<Rightarrow> try_to_get_intent (job_tracker s)) of
        Inl e \<Rightarrow> (Inl e, s)
      | Inr (id_to_replace, t1) \<Rightarrow>
          (case start R sl (world s) of
             (Inl e, w1) \<Rightarrow>
               if is_Exception e
               then (Inl e, s\<lparr>job_tracker := remove_job id_to_replace t1, world := w1\<rparr>)
               else (Inl e, s\<lparr>job_tracker := t1, world := w1\<rparr>)
           | (Inr job, w1) \<Rightarrow>
               (case add_job id_to_replace (api_job_id job) t1 of
                  Inl e \<Rightarrow>
                    (Inl e, s\<lparr>job_tracker := remove_job id_to_replace t1, world := w1\<rparr>)
                | Inr t2 \<Rightarrow> (Inr job, s\<lparr>job_tracker := t2, world := w1\<rparr>))))"

text \<open>
  \<^verbatim>\<open>_replace_failed_jobs\<close>: the list of the jobs to replace is computed first, then
  each is restarted and replaced in the partition, which is mutated in place; the
  model returns the partition as the method leaves it, also when it raises.
\<close>

fun replace_jobs_loop ::
  "('sl, 'w) AsyncJobRepository \<Rightarrow> 'sl AsyncJob list \<Rightarrow> 'sl AsyncPartition
   \<Rightarrow> ('sl, 'w) AsyncJobOrchestrator
   \<Rightarrow> 'sl exn option \<times> 'sl AsyncPartition \<times> ('sl, 'w) AsyncJobOrchestrator"
where
  "replace_jobs_loop R [] p s = (None, p, s)"
| "replace_jobs_loop R (job # rest) p s =
     (case start_job R (job_parameters job) (Some (api_job_id job)) s of
        (Inl e, s1) \<Rightarrow> (Some e, p, s1)
      | (Inr new_job, s1) \<Rightarrow>
          (case replace_job p job [new_job] of
             (Some e, p1) \<Rightarrow> (Some e, p1, s1)
           | (None, p1) \<Rightarrow> replace_jobs_loop R rest p1 s1))"

definition replace_failed_jobs ::
  "('sl, 'w) AsyncJobRepository \<Rightarrow> 'sl AsyncPartition \<Rightarrow> ('sl, 'w) AsyncJobOrchestrator
   \<Rightarrow> 'sl exn option \<times> 'sl AsyncPartition \<times> ('sl, 'w) AsyncJobOrchestrator"
where
  "replace_failed_jobs R p s =
     replace_jobs_loop R
       (filter (\<lambda>job. job_status R (world s) job \<in> {FAILED, TIMED_OUT}) (jobs p)) p s"

text \<open>
  \<^verbatim>\<open>_start_jobs\<close>, first loop: the retry pass over the tracked partitions. \<open>done\<close>
  holds the partitions already visited, as the pass left them.
\<close>

fun retry_pass ::
  "('sl, 'w) AsyncJobRepository \<Rightarrow> 'sl AsyncPartition list \<Rightarrow> 'sl AsyncPartition list
   \<Rightarrow> ('sl, 'w) AsyncJobOrchestrator
   \<Rightarrow> 'sl exn option \<times> 'sl AsyncPartition list \<times> ('sl, 'w) AsyncJobOrchestrator"
where
  "retry_pass R done [] s = (None, done, s)"
| "retry_pass R done (p # rest) s =
     (case replace_failed_jobs R p s of
        (Some e, p1, s1) \<Rightarrow> (Some e, done @ p1 # rest, s1)
      | (None, p1, s1) \<Rightarrow> retry_pass R (done @ [p1]) rest s1)"

text \<open>
  \<^verbatim>\<open>_start_jobs\<close>, second loop: the admission pass over the slices still to draw. It
  returns the exception together with the slice that had been drawn when it was
  raised, and the slices not drawn. The \<^verbatim>\<open>else\<close> branch of the \<^verbatim>\<open>for\<close> runs when the
  iterator is exhausted.
\<close>

fun admission ::
  "('sl, 'w) AsyncJobRepository \<Rightarrow> 'sl list \<Rightarrow> ('sl, 'w) AsyncJobOrchestrator
   \<Rightarrow> ('sl exn \<times> 'sl) option \<times> 'sl list \<times> ('sl, 'w) AsyncJobOrchestrator"
where
  "admission R [] s = (None, [], s\<lparr>has_consumed_every_slice := True\<rparr>)"
| "admission R (sl # rest) s =
     (case start_job R sl None s of
        (Inl e, s1) \<Rightarrow> (Some (e, sl), rest, s1)
      | (Inr job, s1) \<Rightarrow>
          admission R rest
            (s1\<lparr>has_started_a_job := True,
                running_partitions := running_partitions s1 @ [new_partition [job] sl]\<rparr>))"

text \<open>
  \<^verbatim>\<open>_start_jobs\<close>: \<^verbatim>\<open>ConcurrentJobLimitReached\<close> is caught, and the slice drawn in this
  call, if there is one, is chained in front of the iterator; every other exception
  propagates.
\<close>

definition start_jobs ::
  "('sl, 'w) AsyncJobRepository \<Rightarrow> ('sl, 'w) AsyncJobOrchestrator
   \<Rightarrow> 'sl exn option \<times> ('sl, 'w) AsyncJobOrchestrator"
where
  "start_jobs R s =
     (case retry_pass R [] (running_partitions s) s of
        (Some e, ps, s1) \<Rightarrow>
          (if e = ConcurrentJobLimitReached then None else Some e,
           s1\<lparr>running_partitions := ps\<rparr>)
      | (None, ps, s1) \<Rightarrow>
          (case admission R (slice_iterator s1) (s1\<lparr>running_partitions := ps\<rparr>) of
             (None, rest, s2) \<Rightarrow> (None, s2\<lparr>slice_iterator := rest\<rparr>)
           | (Some (e, sl), rest, s2) \<Rightarrow>
               if e = ConcurrentJobLimitReached
               then (None, s2\<lparr>slice_iterator := sl # rest\<rparr>)
               else (Some e, s2\<lparr>slice_iterator := rest\<rparr>)))"

text \<open>\<^verbatim>\<open>_get_running_jobs\<close>, \<^verbatim>\<open>_get_timeout_jobs\<close>, as lists in the order of the partitions.\<close>

definition jobs_with_status ::
  "('sl, 'w) AsyncJobRepository \<Rightarrow> AsyncJobStatus \<Rightarrow> ('sl, 'w) AsyncJobOrchestrator
   \<Rightarrow> 'sl AsyncJob list"
where
  "jobs_with_status R x s =
     filter (\<lambda>job. job_status R (world s) job = x) (concat (map jobs (running_partitions s)))"

definition get_running_jobs ::
  "('sl, 'w) AsyncJobRepository \<Rightarrow> ('sl, 'w) AsyncJobOrchestrator \<Rightarrow> 'sl AsyncJob list" where
  "get_running_jobs R s = jobs_with_status R RUNNING s"

definition get_timeout_jobs ::
  "('sl, 'w) AsyncJobRepository \<Rightarrow> ('sl, 'w) AsyncJobOrchestrator \<Rightarrow> 'sl AsyncJob list" where
  "get_timeout_jobs R s = jobs_with_status R TIMED_OUT s"

text \<open>
  \<^verbatim>\<open>_update_jobs_status\<close> (\<open>update_jobs_status\<close> names the operation of the
  repository): the repository is asked only when some job is running.
\<close>

definition update_status ::
  "('sl, 'w) AsyncJobRepository \<Rightarrow> ('sl, 'w) AsyncJobOrchestrator
   \<Rightarrow> 'sl exn option \<times> ('sl, 'w) AsyncJobOrchestrator"
where
  "update_status R s =
     (let running_jobs = get_running_jobs R s
      in if running_jobs \<noteq> []
         then (case update_jobs_status R (set running_jobs) (world s) of
                 (e, w1) \<Rightarrow> (e, s\<lparr>world := w1\<rparr>))
         else (None, s))"

text \<open>
  \<^verbatim>\<open>_abort_job\<close>: an exception of the repository that \<^verbatim>\<open>except Exception\<close> catches is
  logged and not raised again, any other propagates; the slot is released after the
  abort, inside the \<^verbatim>\<open>try\<close> block.
\<close>

definition abort_job ::
  "('sl, 'w) AsyncJobRepository \<Rightarrow> 'sl AsyncJob \<Rightarrow> bool \<Rightarrow> ('sl, 'w) AsyncJobOrchestrator
   \<Rightarrow> 'sl exn option \<times> ('sl, 'w) AsyncJobOrchestrator"
where
  "abort_job R job free_job_allocation s =
     (case abort R job (world s) of
        (Some e, w1) \<Rightarrow> (if is_Exception e then None else Some e, s\<lparr>world := w1\<rparr>)
      | (None, w1) \<Rightarrow>
          (None,
           if free_job_allocation
           then s\<lparr>world := w1,
                  job_tracker := remove_job (JobId (api_job_id job)) (job_tracker s)\<rparr>
           else s\<lparr>world := w1\<rparr>))"

text \<open>
  \<^verbatim>\<open>_stop_partition\<close> and \<^verbatim>\<open>_stop_timed_out_jobs\<close>: the loops over the jobs of the
  partition; an exception that \<^verbatim>\<open>_abort_job\<close> lets through ends the loop.
\<close>

fun stop_partition_loop ::
  "('sl, 'w) AsyncJobRepository \<Rightarrow> 'sl AsyncJob list \<Rightarrow> ('sl, 'w) AsyncJobOrchestrator
   \<Rightarrow> 'sl exn option \<times> ('sl, 'w) AsyncJobOrchestrator"
where
  "stop_partition_loop R [] s = (None, s)"
| "stop_partition_loop R (job # rest) s =
     (if job_status R (world s) job \<in> {RUNNING, TIMED_OUT}
      then (case abort_job R job True s of
              (Some e, s1) \<Rightarrow> (Some e, s1)
            | (None, s1) \<Rightarrow> stop_partition_loop R rest s1)
      else stop_partition_loop R rest
             (s\<lparr>job_tracker := remove_job (JobId (api_job_id job)) (job_tracker s)\<rparr>))"

definition stop_partition ::
  "('sl, 'w) AsyncJobRepository \<Rightarrow> 'sl AsyncPartition \<Rightarrow> ('sl, 'w) AsyncJobOrchestrator
   \<Rightarrow> 'sl exn option \<times> ('sl, 'w) AsyncJobOrchestrator"
where
  "stop_partition R p s = stop_partition_loop R (jobs p) s"

fun stop_timed_out_loop ::
  "('sl, 'w) AsyncJobRepository \<Rightarrow> 'sl AsyncJob list \<Rightarrow> ('sl, 'w) AsyncJobOrchestrator
   \<Rightarrow> 'sl exn option \<times> ('sl, 'w) AsyncJobOrchestrator"
where
  "stop_timed_out_loop R [] s = (None, s)"
| "stop_timed_out_loop R (job # rest) s =
     (if job_status R (world s) job = TIMED_OUT
      then (case abort_job R job False s of
              (Some e, s1) \<Rightarrow> (Some e, s1)
            | (None, s1) \<Rightarrow> stop_timed_out_loop R rest s1)
      else stop_timed_out_loop R rest s)"

definition stop_timed_out_jobs ::
  "('sl, 'w) AsyncJobRepository \<Rightarrow> 'sl AsyncPartition \<Rightarrow> ('sl, 'w) AsyncJobOrchestrator
   \<Rightarrow> 'sl exn option \<times> ('sl, 'w) AsyncJobOrchestrator"
where
  "stop_timed_out_jobs R p s = stop_timed_out_loop R (jobs p) s"

text \<open>
  \<^verbatim>\<open>_process_partitions_with_errors\<close>: the dictionary of the statuses by remote job id,
  in the exception that is raised.
\<close>

definition status_by_job_id ::
  "('sl AsyncJob \<Rightarrow> AsyncJobStatus) \<Rightarrow> 'sl AsyncPartition \<Rightarrow> (string \<times> AsyncJobStatus) list" where
  "status_by_job_id st p =
     foldl (\<lambda>d job. AList.update (api_job_id job) (st job) d) [] (jobs p)"

definition process_partitions_with_errors ::
  "('sl, 'w) AsyncJobRepository \<Rightarrow> 'sl AsyncPartition \<Rightarrow> ('sl, 'w) AsyncJobOrchestrator
   \<Rightarrow> 'sl exn"
where
  "process_partitions_with_errors R p s =
     AirbyteTracedException system_error (status_by_job_id (job_status R (world s)) p) []"

text \<open>The last loop of the triage: the slots of the completed jobs of a partition.\<close>

definition release_if_completed ::
  "('sl, 'w) AsyncJobRepository \<Rightarrow> ('sl, 'w) AsyncJobOrchestrator \<Rightarrow> 'sl AsyncJob
   \<Rightarrow> ('sl, 'w) AsyncJobOrchestrator"
where
  "release_if_completed R s job =
     (if job_status R (world s) job = COMPLETED
      then s\<lparr>job_tracker := remove_job (JobId (api_job_id job)) (job_tracker s)\<rparr>
      else s)"

definition release_completed ::
  "('sl, 'w) AsyncJobRepository \<Rightarrow> 'sl AsyncPartition \<Rightarrow> ('sl, 'w) AsyncJobOrchestrator
   \<Rightarrow> ('sl, 'w) AsyncJobOrchestrator"
where
  "release_completed R p s = foldl (release_if_completed R) s (jobs p)"

text \<open>
  \<^verbatim>\<open>_process_running_partitions_and_yield_completed_ones\<close>. The generator is run to its
  end, by a consumer that does not act on the repository between two partitions: the
  model returns the exception raised, if any, the partitions yielded and the
  orchestrator. \<open>current\<close> is the local list \<^verbatim>\<open>current_running_partitions\<close>, which
  becomes the list of the tracked partitions only when the loop ends without raising.
\<close>

fun triage_loop ::
  "('sl, 'w) AsyncJobRepository \<Rightarrow> 'sl AsyncPartition list \<Rightarrow> 'sl AsyncPartition list
   \<Rightarrow> 'sl AsyncPartition list \<Rightarrow> ('sl, 'w) AsyncJobOrchestrator
   \<Rightarrow> 'sl exn option \<times> 'sl AsyncPartition list \<times> ('sl, 'w) AsyncJobOrchestrator"
where
  "triage_loop R [] current yielded s = (None, yielded, s\<lparr>running_partitions := current\<rparr>)"
| "triage_loop R (p # rest) current yielded s =
     (let partition_status = status (job_status R (world s)) p
      in if partition_status = COMPLETED
         then triage_loop R rest current (yielded @ [p]) (release_completed R p s)
         else if partition_status = RUNNING
         then triage_loop R rest (current @ [p]) yielded (release_completed R p s)
         else if has_reached_max_attempt p
         then (case stop_partition R p s of
                 (Some e, s1) \<Rightarrow> (Some e, yielded, s1)
               | (None, s1) \<Rightarrow> (Some (process_partitions_with_errors R p s1), yielded, s1))
         else (case stop_timed_out_jobs R p s of
                 (Some e, s1) \<Rightarrow> (Some e, yielded, s1)
               | (None, s1) \<Rightarrow>
                   triage_loop R rest (p # current) yielded (release_completed R p s1)))"

definition process_running_partitions_and_yield_completed_ones ::
  "('sl, 'w) AsyncJobRepository \<Rightarrow> ('sl, 'w) AsyncJobOrchestrator
   \<Rightarrow> 'sl exn option \<times> 'sl AsyncPartition list \<times> ('sl, 'w) AsyncJobOrchestrator"
where
  "process_running_partitions_and_yield_completed_ones R s =
     triage_loop R (running_partitions s) [] [] s"

text \<open>
  \<^verbatim>\<open>_abort_all_running_jobs\<close>: the repository is called directly, so its exception
  propagates and the list of the tracked partitions is then not emptied. The source
  iterates over a set, in an order Python does not fix; the model takes the running
  jobs, then the timed out ones.
\<close>

fun abort_all ::
  "('sl, 'w) AsyncJobRepository \<Rightarrow> 'sl AsyncJob list \<Rightarrow> 'w \<Rightarrow> 'sl exn option \<times> 'w" where
  "abort_all R [] w = (None, w)"
| "abort_all R (job # rest) w =
     (case abort R job w of
        (Some e, w1) \<Rightarrow> (Some e, w1)
      | (None, w1) \<Rightarrow> abort_all R rest w1)"

definition abort_all_running_jobs ::
  "('sl, 'w) AsyncJobRepository \<Rightarrow> ('sl, 'w) AsyncJobOrchestrator
   \<Rightarrow> 'sl exn option \<times> ('sl, 'w) AsyncJobOrchestrator"
where
  "abort_all_running_jobs R s =
     (case abort_all R (remdups (get_running_jobs R s @ get_timeout_jobs R s)) (world s) of
        (Some e, w1) \<Rightarrow> (Some e, s\<lparr>world := w1\<rparr>)
      | (None, w1) \<Rightarrow> (None, s\<lparr>world := w1, running_partitions := []\<rparr>))"

text \<open>
  \<^verbatim>\<open>create_and_get_completed_partitions\<close>. The termination check of the main loop, the
  exception raised after the loop, and one iteration of the loop: it either ends the
  generator, normally or with an exception, or goes on to the next iteration. The
  waiting between two polls takes time and changes no state. \<open>brk\<close> tells the
  exceptions of the classes to break on; of the others, \<^verbatim>\<open>except Exception\<close> catches
  those of class \<^verbatim>\<open>Exception\<close>, and the rest propagate.
\<close>

definition termination_check :: "('sl, 'w) AsyncJobOrchestrator \<Rightarrow> bool" where
  "termination_check s =
     ((has_started_a_job s \<or> has_consumed_every_slice s) \<and> running_partitions s = [])"

definition after_loop :: "('sl, 'w) AsyncJobOrchestrator \<Rightarrow> 'sl exn option" where
  "after_loop s =
     (if non_breaking_exceptions s \<noteq> []
      then Some (AirbyteTracedException config_error [] (non_breaking_exceptions s))
      else None)"

datatype ('sl, 'w) outcome =
    Ended "'sl exn option" "'sl AsyncPartition list" "('sl, 'w) AsyncJobOrchestrator"
  | Next "'sl AsyncPartition list" "('sl, 'w) AsyncJobOrchestrator"

definition poll_and_triage ::
  "('sl, 'w) AsyncJobRepository \<Rightarrow> ('sl, 'w) AsyncJobOrchestrator \<Rightarrow> ('sl, 'w) outcome" where
  "poll_and_triage R s =
     (if termination_check s then Ended (after_loop s) [] s
      else (case update_status R s of
              (Some e, s1) \<Rightarrow> Ended (Some e) [] s1
            | (None, s1) \<Rightarrow>
                (case process_running_partitions_and_yield_completed_ones R s1 of
                   (Some e, yielded, s2) \<Rightarrow> Ended (Some e) yielded s2
                 | (None, yielded, s2) \<Rightarrow> Next yielded s2)))"

definition iteration ::
  "('sl, 'w) AsyncJobRepository \<Rightarrow> ('sl exn \<Rightarrow> bool) \<Rightarrow> ('sl, 'w) AsyncJobOrchestrator
   \<Rightarrow> ('sl, 'w) outcome"
where
  "iteration R brk s =
     (case start_jobs R s of
        (Some e, s1) \<Rightarrow>
          if brk e
          then (case abort_all_running_jobs R s1 of
                  (Some e', s2) \<Rightarrow> Ended (Some e') [] s2
                | (None, s2) \<Rightarrow> Ended (Some e) [] s2)
          else if is_Exception e
          then poll_and_triage R
                 (s1\<lparr>non_breaking_exceptions := non_breaking_exceptions s1 @ [e]\<rparr>)
          else Ended (Some e) [] s1
      | (None, s1) \<Rightarrow> poll_and_triage R s1)"

text \<open>
  The main loop, with fuel: \<open>None\<close> when the iterations allowed do not reach the end of
  the generator, else the exception raised (if any), the partitions yielded and the
  orchestrator at the end.
\<close>

fun run ::
  "('sl, 'w) AsyncJobRepository \<Rightarrow> ('sl exn \<Rightarrow> bool) \<Rightarrow> nat \<Rightarrow> 'sl AsyncPartition list
   \<Rightarrow> ('sl, 'w) AsyncJobOrchestrator
   \<Rightarrow> ('sl exn option \<times> 'sl AsyncPartition list \<times> ('sl, 'w) AsyncJobOrchestrator) option"
where
  "run R brk 0 yielded s = None"
| "run R brk (Suc fuel) yielded s =
     (case iteration R brk s of
        Ended e ys s1 \<Rightarrow> Some (e, yielded @ ys, s1)
      | Next ys s1 \<Rightarrow> run R brk fuel (yielded @ ys) s1)"

definition create_and_get_completed_partitions ::
  "('sl, 'w) AsyncJobRepository \<Rightarrow> ('sl exn \<Rightarrow> bool) \<Rightarrow> nat \<Rightarrow> ('sl, 'w) AsyncJobOrchestrator
   \<Rightarrow> ('sl exn option \<times> 'sl AsyncPartition list \<times> ('sl, 'w) AsyncJobOrchestrator) option"
where
  "create_and_get_completed_partitions R brk fuel s = run R brk fuel [] s"

section \<open>Notions used in the statements\<close>

text \<open>
  The state of the remote system when a loop over the jobs of a partition reaches the
  job of index \<open>k\<close>, and when it ends (\<open>k\<close> the number of the jobs): the loop has asked
  the repository to abort, in turn, each earlier job whose status, read at that moment,
  was one of \<open>A\<close>. For \<^verbatim>\<open>_stop_partition\<close> these are RUNNING and TIMED_OUT, for
  \<^verbatim>\<open>_stop_timed_out_jobs\<close> TIMED_OUT alone.
\<close>

fun world_at ::
  "('sl, 'w) AsyncJobRepository \<Rightarrow> AsyncJobStatus set \<Rightarrow> 'sl AsyncJob list \<Rightarrow> 'w \<Rightarrow> nat \<Rightarrow> 'w"
where
  "world_at R A [] w k = w"
| "world_at R A (job # rest) w 0 = w"
| "world_at R A (job # rest) w (Suc k) =
     world_at R A rest (if job_status R w job \<in> A then snd (abort R job w) else w) k"

text \<open>The slots named by the remote ids of the jobs.\<close>

definition slot_ids :: "'sl AsyncJob list \<Rightarrow> slot_id fset" where
  "slot_ids js = fset_of_list (map (\<lambda>job. JobId (api_job_id job)) js)"

section \<open>Concrete inputs\<close>

text \<open>
  Jobs, trackers and repositories on which the operations are evaluated below. The
  slices are numbers, the state of the remote system is the number of the jobs started
  so far, and the job started as number \<open>n\<close> has \<open>n + 1\<close> letters as its remote id.
\<close>

definition job_name :: "nat \<Rightarrow> string" where
  "job_name n = replicate (Suc n) (CHR ''j'')"

definition jobA :: "nat AsyncJob" where
  "jobA = \<lparr>job_obj = 0, api_job_id = ''a'', job_parameters = 5\<rparr>"

definition jobB :: "nat AsyncJob" where
  "jobB = \<lparr>job_obj = 1, api_job_id = ''b'', job_parameters = 5\<rparr>"

definition empty_tracker :: "nat \<Rightarrow> JobTracker" where
  "empty_tracker n = \<lparr>slots = {||}, limit = n, next_intent = 0\<rparr>"

text \<open>A tracker of one slot, which is held by a job of another owner.\<close>

definition full_tracker :: JobTracker where
  "full_tracker = \<lparr>slots = {|JobId ''other''|}, limit = 1, next_intent = 0\<rparr>"

text \<open>
  A repository that cannot start a job for the slice 0 and cannot abort any job; its
  jobs stay RUNNING.
\<close>

definition failing_repository :: "(nat, nat) AsyncJobRepository" where
  "failing_repository =
     \<lparr>start = (\<lambda>sl w. if sl = 0 then (Inl (Raised 7), w)
                       else (Inr \<lparr>job_obj = w, api_job_id = job_name w, job_parameters = sl\<rparr>,
                             Suc w)),
      update_jobs_status = (\<lambda>js w. (None, w)),
      abort = (\<lambda>job w. (Some (Raised 9), w)),
      job_status = (\<lambda>w job. RUNNING)\<rparr>"

text \<open>
  A repository whose jobs all have the given status and whose abort has the given
  outcome, and an orchestrator that tracks one partition with the given attempts,
  with a tracker that holds the slots of the given remote ids.
\<close>

definition fixed_status_repository ::
  "AsyncJobStatus \<Rightarrow> nat exn option \<Rightarrow> (nat, nat) AsyncJobRepository" where
  "fixed_status_repository st abort_result =
     \<lparr>start = (\<lambda>sl w. (Inr \<lparr>job_obj = w, api_job_id = job_name w, job_parameters = sl\<rparr>, Suc w)),
      update_jobs_status = (\<lambda>js w. (None, w)),
      abort = (\<lambda>job w. (abort_result, w)),
      job_status = (\<lambda>w job. st)\<rparr>"

definition tracking ::
  "(nat AsyncJob \<times> int) list \<Rightarrow> nat \<Rightarrow> string list \<Rightarrow> nat \<Rightarrow> (nat, nat) AsyncJobOrchestrator" where
  "tracking attempts sl held n =
     (init [] \<lparr>slots = fset_of_list (map JobId held), limit = n, next_intent = 0\<rparr> 0)
       \<lparr>running_partitions := [\<lparr>attempts_per_job = attempts, stream_slice = sl\<rparr>]\<rparr>"

text \<open>
  A repository whose jobs are all TIMED_OUT and that cannot abort the job of remote id
  \<open>''a''\<close>, while it aborts every other job.
\<close>

definition partly_aborting_repository :: "(nat, nat) AsyncJobRepository" where
  "partly_aborting_repository =
     \<lparr>start = (\<lambda>sl w. (Inr \<lparr>job_obj = w, api_job_id = job_name w, job_parameters = sl\<rparr>, Suc w)),
      update_jobs_status = (\<lambda>js w. (None, w)),
      abort = (\<lambda>job w. (if api_job_id job = ''a'' then Some (Raised 9) else None, w)),
      job_status = (\<lambda>w job. TIMED_OUT)\<rparr>"

text \<open>
  A repository whose calls are interrupted: the start and the abort of a job raise an
  exception that is not of class \<^verbatim>\<open>Exception\<close>.
\<close>

definition interrupted_repository :: "(nat, nat) AsyncJobRepository" where
  "interrupted_repository =
     \<lparr>start = (\<lambda>sl w. (Inl (RaisedBase 2), w)),
      update_jobs_status = (\<lambda>js w. (None, w)),
      abort = (\<lambda>job w. (Some (RaisedBase 2), w)),
      job_status = (\<lambda>w job. RUNNING)\<rparr>"


text \<open>A job whose remote id is the empty string.\<close>

definition jobE :: "nat AsyncJob" where
  "jobE = \<lparr>job_obj = 7, api_job_id = [], job_parameters = 5\<rparr>"

text \<open>
  A repository in which each refresh brings the jobs it is asked about one poll closer
  to completion. The state of the remote system is the number of the jobs started and
  the polls left for each job, by the number of the job.
\<close>

definition polling_repository :: "(nat, nat \<times> (nat \<Rightarrow> nat)) AsyncJobRepository" where
  "polling_repository =
     \<lparr>start = (\<lambda>sl w. (Inr \<lparr>job_obj = fst w, api_job_id = job_name (fst w), job_parameters = sl\<rparr>,
                        (Suc (fst w), snd w))),
      update_jobs_status =
        (\<lambda>js w. (None, (fst w, \<lambda>i. if i \<in> job_obj ` js then snd w i - 1 else snd w i))),
      abort = (\<lambda>job w. (None, w)),
      job_status = (\<lambda>w job. if snd w (job_obj job) = 0 then COMPLETED else RUNNING)\<rparr>"

section \<open>Aggregate status of a partition\<close>

lemma mem_statuses: "(s \<in> set (map st js)) = (\<exists>j \<in> set js. st j = s)"
  by (simp add: image_iff eq_commute)

lemma statuses_all_completed:
  "js \<noteq> [] \<Longrightarrow> (set (map st js) = {COMPLETED}) = (\<forall>j \<in> set js. st j = COMPLETED)"
  by (cases js) auto

text \<open>
  C3: for a partition with at least one job the aggregate status is COMPLETED if every
  job is COMPLETED, otherwise FAILED if some job is FAILED, otherwise TIMED_OUT if some
  job is TIMED_OUT, otherwise RUNNING; so it is COMPLETED exactly when every job is.
\<close>

theorem status_priority_order:
  assumes "jobs p \<noteq> []"
  shows "status st p =
           (if (\<forall>j \<in> set (jobs p). st j = COMPLETED) then COMPLETED
            else if (\<exists>j \<in> set (jobs p). st j = FAILED) then FAILED
            else if (\<exists>j \<in> set (jobs p). st j = TIMED_OUT) then TIMED_OUT
            else RUNNING)
         \<and> (status st p = COMPLETED \<longleftrightarrow> (\<forall>j \<in> set (jobs p). st j = COMPLETED))"
proof -
  have all: "(set (map st (jobs p)) = {COMPLETED}) = (\<forall>j \<in> set (jobs p). st j = COMPLETED)"
    using assms by (rule statuses_all_completed)
  show ?thesis
    unfolding status_def Let_def all mem_statuses by simp
qed

theorem status_priority_order_witness:
  "jobs \<lparr>attempts_per_job = [(\<lparr>job_obj = 0, api_job_id = ''a'', job_parameters = ()\<rparr>, 1),
                             (\<lparr>job_obj = 1, api_job_id = ''b'', job_parameters = ()\<rparr>, 2)],
         stream_slice = ()\<rparr> \<noteq> []
   \<and> status (\<lambda>j. if job_obj j = 0 then COMPLETED else TIMED_OUT)
       \<lparr>attempts_per_job = [(\<lparr>job_obj = 0, api_job_id = ''a'', job_parameters = ()\<rparr>, 1),
                            (\<lparr>job_obj = 1, api_job_id = ''b'', job_parameters = ()\<rparr>, 2)],
        stream_slice = ()\<rparr> = TIMED_OUT"
  using status_priority_order
    [of "\<lparr>attempts_per_job = [(\<lparr>job_obj = 0, api_job_id = ''a'', job_parameters = ()\<rparr>, 1),
                              (\<lparr>job_obj = 1, api_job_id = ''b'', job_parameters = ()\<rparr>, 2)],
          stream_slice = ()\<rparr>"
        "\<lambda>j. if job_obj j = 0 then COMPLETED else TIMED_OUT"]
  by (simp add: jobs_def)

text \<open>
  C10: a partition without jobs has aggregate status RUNNING (and so not COMPLETED):
  the set of statuses is empty, which is not the singleton of COMPLETED and holds
  neither FAILED nor TIMED_OUT.
\<close>

theorem status_of_empty_partition:
  assumes "jobs p = []"
  shows "status st p = RUNNING \<and> status st p \<noteq> COMPLETED"
  using assms by (simp add: status_def)

theorem status_of_empty_partition_witness:
  "jobs (new_partition [] (0::nat)) = []
   \<and> status (\<lambda>j. COMPLETED) (new_partition [] (0::nat)) = RUNNING"
  using status_of_empty_partition [of "new_partition [] (0::nat)" "\<lambda>j. COMPLETED"]
  by (simp add: new_partition_def jobs_def)

section \<open>Replacing a job of a partition\<close>

lemma map_of_fold_update:
  "map_of (foldl (\<lambda>d j. AList.update j v d) al js) k
     = (if k \<in> set js then Some v else map_of al k)"
  by (induction js arbitrary: al) (auto simp: update_conv')

lemma job_in_partition_iff: "(job \<in> set (jobs p)) = (map_of (attempts_per_job p) job \<noteq> None)"
  by (simp add: jobs_def map_of_eq_None_iff)

text \<open>
  C6: \<^verbatim>\<open>replace_job\<close> raises exactly when the job is not in the partition or its
  attempt count is 3 or more. When it does not raise, the job replaced is removed and
  every new job is recorded with the attempt count of the replaced job plus one; the
  other jobs and the slice are as before.
\<close>

theorem replace_job_raises_iff:
  "(fst (replace_job p job new_jobs) \<noteq> None
      \<longleftrightarrow> job \<notin> set (jobs p)
          \<or> (\<exists>c. map_of (attempts_per_job p) job = Some c \<and> c \<ge> 3))
   \<and> (fst (replace_job p job new_jobs) = None \<longrightarrow>
        (\<exists>c. map_of (attempts_per_job p) job = Some c
           \<and> stream_slice (snd (replace_job p job new_jobs)) = stream_slice p
           \<and> (\<forall>j. map_of (attempts_per_job (snd (replace_job p job new_jobs))) j
                  = (if j \<in> set new_jobs then Some (c + 1)
                     else if j = job then None
                     else map_of (attempts_per_job p) j))))"
proof (cases "map_of (attempts_per_job p) job")
  case None
  then have "job \<notin> set (jobs p)"
    by (simp add: job_in_partition_iff)
  with None show ?thesis
    by (simp add: replace_job_def Let_def)
next
  case (Some c)
  then have "job \<in> set (jobs p)"
    by (simp add: job_in_partition_iff)
  with Some show ?thesis
    by (simp add: replace_job_def Let_def MAX_NUMBER_OF_ATTEMPTS_def map_of_fold_update
        delete_conv')
qed

theorem replace_job_raises_iff_witness:
  "fst (replace_job \<lparr>attempts_per_job = [(jobA, 2)], stream_slice = 5\<rparr> jobA [jobB]) = None
   \<and> map_of (attempts_per_job
        (snd (replace_job \<lparr>attempts_per_job = [(jobA, 2)], stream_slice = 5\<rparr> jobA [jobB]))) jobB
       = Some 3
   \<and> map_of (attempts_per_job
        (snd (replace_job \<lparr>attempts_per_job = [(jobA, 2)], stream_slice = 5\<rparr> jobA [jobB]))) jobA
       = None"
  using replace_job_raises_iff [of "\<lparr>attempts_per_job = [(jobA, 2)], stream_slice = 5\<rparr>" jobA "[jobB]"]
  by (simp add: jobA_def jobB_def jobs_def)

text \<open>
  C9: when \<^verbatim>\<open>replace_job\<close> raises the error of the maximum of attempts, the job to
  replace has already been popped from the dictionary and is not put back: the
  partition that the method leaves no longer holds the job, which it held before.
\<close>

theorem replace_job_rejection_not_atomic:
  assumes "map_of (attempts_per_job p) job = Some c" and "c \<ge> MAX_NUMBER_OF_ATTEMPTS"
  shows "replace_job p job new_jobs
           = (Some (ValueError_max_attempt_reached (stream_slice p)),
              p\<lparr>attempts_per_job := AList.delete job (attempts_per_job p)\<rparr>)
         \<and> job \<in> set (jobs p)
         \<and> job \<notin> set (jobs (snd (replace_job p job new_jobs)))"
proof -
  have "job \<in> set (jobs p)"
    using assms(1) by (simp add: job_in_partition_iff)
  moreover have "job \<notin> fst ` set (AList.delete job (attempts_per_job p))"
    by (simp add: delete_notin_dom)
  ultimately show ?thesis
    using assms by (simp add: replace_job_def Let_def jobs_def)
qed

theorem replace_job_rejection_not_atomic_witness:
  "map_of (attempts_per_job \<lparr>attempts_per_job = [(jobA, 3)], stream_slice = 5\<rparr>) jobA = Some 3
   \<and> MAX_NUMBER_OF_ATTEMPTS \<le> 3
   \<and> replace_job \<lparr>attempts_per_job = [(jobA, 3)], stream_slice = 5\<rparr> jobA [jobB]
       = (Some (ValueError_max_attempt_reached 5), \<lparr>attempts_per_job = [], stream_slice = 5\<rparr>)"
  using replace_job_rejection_not_atomic
    [of "\<lparr>attempts_per_job = [(jobA, 3)], stream_slice = 5\<rparr>" jobA 3 "[jobB]"]
  by (simp add: jobA_def jobB_def jobs_def MAX_NUMBER_OF_ATTEMPTS_def)

section \<open>Starting a job\<close>

text \<open>
  C7, as the code has it: \<^verbatim>\<open>_start_job\<close> leaks no slot when the exception is of class
  \<^verbatim>\<open>Exception\<close>. The slot it works on is the slot of the prior job when a non-empty
  prior id is given, else the one it reserves. When the start of the job or the binding
  raises an exception that \<^verbatim>\<open>except Exception\<close> catches, that slot is released: it is not
  among the slots of the tracker when the exception propagates, and the tracker holds no
  slot it did not hold before the call. When the start raises an exception of another
  class, the exception propagates and the tracker holds the slot worked on: the slots
  are the old ones, with the slot reserved if one was. When the reservation itself fails
  nothing was reserved and the orchestrator is unchanged. On success the slot is bound
  to the remote id of the new job, in place of the slot worked on.
\<close>

theorem start_job_releases_slot_on_Exception:
  assumes "start_job R sl previous_job_id s = (r, s')"
  shows "let t = job_tracker s;
             reuse = (previous_job_id \<noteq> None \<and> previous_job_id \<noteq> Some []);
             id_to_replace = (if reuse then JobId (the previous_job_id) else Intent (next_intent t))
         in case r of
              Inr job \<Rightarrow>
                  start R sl (world s) = (Inr job, world s')
                \<and> (reuse \<or> fcard (slots t) < limit t)
                \<and> JobId (api_job_id job) |\<in>| slots (job_tracker s')
                \<and> slots (job_tracker s')
                    = finsert (JobId (api_job_id job)) (slots t |-| {|id_to_replace|})
            | Inl e \<Rightarrow>
                if \<not> reuse \<and> limit t \<le> fcard (slots t)
                then e = ConcurrentJobLimitReached \<and> s' = s
                else (fst (start R sl (world s)) = Inl e
                        \<or> (\<exists>job. fst (start R sl (world s)) = Inr job
                              \<and> e = ValueError_unknown_intent
                              \<and> id_to_replace |\<notin>| slots t))
                   \<and> world s' = snd (start R sl (world s))
                   \<and> (if is_Exception e
                       then id_to_replace |\<notin>| slots (job_tracker s')
                          \<and> slots (job_tracker s') = slots t |-| {|id_to_replace|}
                       else slots (job_tracker s')
                              = (if reuse then slots t else finsert id_to_replace (slots t)))"
  using assms
  by (auto simp: start_job_def try_to_get_intent_def add_job_def remove_job_def Let_def
           split: option.splits if_splits sum.splits prod.splits)

lemma start_job_fails_example:
  "start_job failing_repository 0 None (init [] (empty_tracker 1) 0)
     = (Inl (Raised 7), init [] (empty_tracker 1\<lparr>next_intent := 1\<rparr>) 0)"
  by (simp add: start_job_def failing_repository_def init_def empty_tracker_def
      try_to_get_intent_def remove_job_def fcard_fempty)

text \<open>
  The claim C7 as stated fails for an exception that is not of class \<^verbatim>\<open>Exception\<close>: the
  tracker has one free slot, the slot \<open>Intent 0\<close> is reserved, the start of the job is
  interrupted, and the exception propagates while the tracker still holds \<open>Intent 0\<close>.
\<close>

theorem start_job_keeps_slot_on_BaseException:
  "start_job interrupted_repository 1 None (init [] (empty_tracker 1) 0)
     = (Inl (RaisedBase 2),
        init [] \<lparr>slots = {|Intent 0|}, limit = 1, next_intent = 1\<rparr> 0)
   \<and> Intent 0 |\<in>| slots (job_tracker (init [] \<lparr>slots = {|Intent 0|}, limit = 1, next_intent = 1\<rparr> (0::nat)))"
  by (simp add: start_job_def interrupted_repository_def init_def empty_tracker_def
      try_to_get_intent_def remove_job_def fcard_fempty)

theorem start_job_releases_slot_on_Exception_witness:
  "start_job failing_repository 0 None (init [] (empty_tracker 1) 0)
     = (Inl (Raised 7), init [] (empty_tracker 1\<lparr>next_intent := 1\<rparr>) 0)
   \<and> slots (job_tracker (init [] (empty_tracker 1\<lparr>next_intent := 1\<rparr>) (0::nat))) = {||}"
proof -
  have "slots (job_tracker (init [] (empty_tracker 1\<lparr>next_intent := 1\<rparr>) (0::nat))) = {||}"
    using start_job_releases_slot_on_Exception [OF start_job_fails_example]
    by (simp add: Let_def init_def empty_tracker_def fcard_fempty failing_repository_def)
  with start_job_fails_example show ?thesis
    by (rule conjI)
qed

section \<open>The main loop\<close>

lemmas eval_defs =
  create_and_get_completed_partitions_def iteration_def start_jobs_def init_def start_job_def
  try_to_get_intent_def add_job_def remove_job_def abort_all_running_jobs_def
  get_running_jobs_def get_timeout_jobs_def jobs_with_status_def new_partition_def jobs_def
  poll_and_triage_def termination_check_def after_loop_def fcard_fempty fcard_finsert_if

text \<open>
  C1: the termination check reads the flag \<^verbatim>\<open>_has_consumed_every_slice\<close>, which
  \<^verbatim>\<open>__init__\<close> sets to \<^verbatim>\<open>True\<close>. With one slice to draw and a tracker whose only slot is
  taken, the admission pass starts no job and pushes the slice back, and the loop ends
  at its first check, normally: no job has been started, the slice is still in the
  iterator, nothing is yielded and nothing is raised.
\<close>

theorem loop_ends_with_unexhausted_input:
  "create_and_get_completed_partitions failing_repository (\<lambda>e. False) 1
       (init [1] full_tracker 0)
     = Some (None, [], init [1] full_tracker 0)
   \<and> termination_check (init [1] full_tracker (0::nat))
   \<and> slice_iterator (init [1::nat] full_tracker (0::nat)) = [1]
   \<and> has_started_a_job (init [1::nat] full_tracker (0::nat)) = False"
  by (simp add: eval_defs full_tracker_def failing_repository_def)

text \<open>
  C8: \<^verbatim>\<open>_abort_all_running_jobs\<close> calls the repository outside any \<^verbatim>\<open>try\<close>. With the
  slices 1 and 0, the job of slice 1 is started and is running when the start for
  slice 0 raises the breaking exception \<open>Raised 7\<close>; the abort of the running job
  raises \<open>Raised 9\<close>, and this is the exception the caller receives, in place of the
  breaking one. The partition stays in the list of the tracked partitions.
\<close>

theorem abort_failure_replaces_breaking_error:
  "create_and_get_completed_partitions failing_repository (\<lambda>e. e = Raised 7) 1
       (init [1, 0] (empty_tracker 2) 0)
     = Some (Some (Raised 9), [],
         \<lparr>slice_iterator = [],
          running_partitions =
            [new_partition [\<lparr>job_obj = 0, api_job_id = ''j'', job_parameters = 1\<rparr>] 1],
          job_tracker = \<lparr>slots = {|JobId ''j''|}, limit = 2, next_intent = 2\<rparr>,
          has_started_a_job = True,
          has_consumed_every_slice = True,
          non_breaking_exceptions = [],
          world = 1\<rparr>)"
  by (simp add: eval_defs empty_tracker_def failing_repository_def job_name_def)

text \<open>
  C2: with the slices 1 and 2 to draw and a tracker whose only slot is taken, nothing
  fails during the admission but the reservation, with the limit reached: the slice 1
  that was drawn is pushed back in front of the slice 2 and nothing is raised. The loop
  then ends at its first check, whatever the number of iterations allowed, because the
  flag \<^verbatim>\<open>_has_consumed_every_slice\<close> is \<^verbatim>\<open>True\<close> from \<^verbatim>\<open>__init__\<close> on: the generator
  returns normally, having yielded nothing, with both slices still in the iterator and
  no job started for either. The repository is one whose start never fails and whose
  jobs all complete.
\<close>

theorem loop_ends_with_slices_never_started:
  "create_and_get_completed_partitions polling_repository (\<lambda>e. False) (Suc n)
       (init [1, 2] full_tracker (0, \<lambda>i. 1))
     = Some (None, [], init [1, 2] full_tracker (0, \<lambda>i. 1))
   \<and> slice_iterator (init [1::nat, 2] full_tracker (0::nat, \<lambda>i::nat. 1::nat)) = [1, 2]
   \<and> has_started_a_job (init [1::nat, 2] full_tracker (0::nat, \<lambda>i::nat. 1::nat)) = False
   \<and> fst (start_jobs polling_repository (init [1, 2] full_tracker (0, \<lambda>i. 1))) = None"
  by (simp add: eval_defs full_tracker_def polling_repository_def)

section \<open>Triage of the tracked partitions\<close>

subsection \<open>A partition out of attempts\<close>

lemmas triage_eval_defs =
  process_running_partitions_and_yield_completed_ones_def tracking_def init_def
  fixed_status_repository_def status_def jobs_def has_reached_max_attempt_def
  MAX_NUMBER_OF_ATTEMPTS_def stop_partition_def stop_timed_out_jobs_def abort_job_def
  process_partitions_with_errors_def status_by_job_id_def release_completed_def
  release_if_completed_def remove_job_def jobA_def jobB_def jobE_def

lemma world_at_0 [simp]: "world_at R A js w 0 = w"
  by (cases js) simp_all

lemma ex_less_Suc_conv: "(\<exists>k<Suc n. Q k) = (Q 0 \<or> (\<exists>k<n. Q (Suc k)))"
  by (metis less_Suc_eq_0_disj)

lemma all_less_Suc_conv: "(\<forall>k<Suc n. Q k) = (Q 0 \<and> (\<forall>k<n. Q (Suc k)))"
  by (metis less_Suc_eq_0_disj)

lemma abort_job_caught:
  assumes "\<forall>e. fst (abort R job (world s)) = Some e \<longrightarrow> is_Exception e"
  shows "abort_job R job free s
           = (None,
              if fst (abort R job (world s)) = None \<and> free
              then s\<lparr>world := snd (abort R job (world s)),
                     job_tracker := (job_tracker s)\<lparr>slots :=
                        slots (job_tracker s) |-| {|JobId (api_job_id job)|}\<rparr>\<rparr>
              else s\<lparr>world := snd (abort R job (world s))\<rparr>)"
  using assms by (cases "abort R job (world s)")
    (auto simp: abort_job_def remove_job_def split: option.splits)

lemma stop_partition_loop_spec:
  assumes "\<forall>k<length js.
             job_status R (world_at R {RUNNING, TIMED_OUT} js (world s) k) (js ! k) \<in> {RUNNING, TIMED_OUT}
             \<longrightarrow> (\<forall>e. fst (abort R (js ! k) (world_at R {RUNNING, TIMED_OUT} js (world s) k)) = Some e
                      \<longrightarrow> is_Exception e)"
  shows "\<exists>S. stop_partition_loop R js s
               = (None,
                  s\<lparr>world := world_at R {RUNNING, TIMED_OUT} js (world s) (length js),
                    job_tracker := (job_tracker s)\<lparr>slots := S\<rparr>\<rparr>)
           \<and> (\<forall>x. x |\<in>| S \<longleftrightarrow>
                  x |\<in>| slots (job_tracker s)
                \<and> \<not> (\<exists>k<length js. x = JobId (api_job_id (js ! k))
                        \<and> (job_status R (world_at R {RUNNING, TIMED_OUT} js (world s) k) (js ! k)
                              \<in> {RUNNING, TIMED_OUT}
                           \<longrightarrow> fst (abort R (js ! k) (world_at R {RUNNING, TIMED_OUT} js (world s) k))
                                 = None)))"
  using assms
proof (induction js arbitrary: s)
  case Nil
  show ?case
    by (rule exI [of _ "slots (job_tracker s)"]) simp
next
  case (Cons a js)
  let ?A = "{RUNNING, TIMED_OUT}"
  let ?ab = "job_status R (world s) a \<in> ?A"
  let ?rel0 = "?ab \<longrightarrow> fst (abort R a (world s)) = None"
  let ?w1 = "if ?ab then snd (abort R a (world s)) else world s"
  let ?S1 = "if ?rel0 then slots (job_tracker s) |-| {|JobId (api_job_id a)|}
             else slots (job_tracker s)"
  let ?s1 = "s\<lparr>world := ?w1, job_tracker := (job_tracker s)\<lparr>slots := ?S1\<rparr>\<rparr>"
  from Cons.prems have
    head: "?ab \<longrightarrow> (\<forall>e. fst (abort R a (world s)) = Some e \<longrightarrow> is_Exception e)"
    and tail: "\<forall>k<length js.
             job_status R (world_at R ?A js ?w1 k) (js ! k) \<in> ?A
             \<longrightarrow> (\<forall>e. fst (abort R (js ! k) (world_at R ?A js ?w1 k)) = Some e \<longrightarrow> is_Exception e)"
    unfolding length_Cons all_less_Suc_conv by simp_all
  have step: "stop_partition_loop R (a # js) s = stop_partition_loop R js ?s1"
  proof (cases ?ab)
    case True
    with head have "\<forall>e. fst (abort R a (world s)) = Some e \<longrightarrow> is_Exception e"
      by blast
    from abort_job_caught [OF this, of True] True show ?thesis
      by simp
  next
    case False
    then show ?thesis
      by (simp add: remove_job_def)
  qed
  have w1: "world ?s1 = ?w1"
    by simp
  from Cons.IH [of ?s1] tail obtain S where
    eq: "stop_partition_loop R js ?s1
           = (None, ?s1\<lparr>world := world_at R ?A js (world ?s1) (length js),
                        job_tracker := (job_tracker ?s1)\<lparr>slots := S\<rparr>\<rparr>)"
    and mem: "\<forall>x. x |\<in>| S \<longleftrightarrow>
                  x |\<in>| slots (job_tracker ?s1)
                \<and> \<not> (\<exists>k<length js. x = JobId (api_job_id (js ! k))
                        \<and> (job_status R (world_at R ?A js (world ?s1) k) (js ! k) \<in> ?A
                           \<longrightarrow> fst (abort R (js ! k) (world_at R ?A js (world ?s1) k)) = None))"
    unfolding w1 by blast
  have 1: "stop_partition_loop R (a # js) s
             = (None, s\<lparr>world := world_at R ?A (a # js) (world s) (length (a # js)),
                        job_tracker := (job_tracker s)\<lparr>slots := S\<rparr>\<rparr>)"
    unfolding step eq by simp
  have 2: "\<forall>x. x |\<in>| S \<longleftrightarrow>
                  x |\<in>| slots (job_tracker s)
                \<and> \<not> (\<exists>k<length (a # js). x = JobId (api_job_id ((a # js) ! k))
                        \<and> (job_status R (world_at R ?A (a # js) (world s) k) ((a # js) ! k) \<in> ?A
                           \<longrightarrow> fst (abort R ((a # js) ! k) (world_at R ?A (a # js) (world s) k)) = None))"
    using mem unfolding length_Cons ex_less_Suc_conv by auto
  from 1 2 show ?case
    by blast
qed

text \<open>
  C4, as the code has it. For a partition of status FAILED or TIMED_OUT that has
  reached the maximum of attempts, the triage goes through its jobs in turn: a job that
  is RUNNING or TIMED_OUT when its turn comes is aborted, and its slot is released when
  that abort returns, and stays held when that abort raises (the exception is logged);
  the slot of any other job is released. Then the traced exception of type system error
  is raised, which carries the statuses by remote job id (and nothing of the slice).
  The partition is not yielded and is not put on the list for the next iteration; the
  pass ends there, so the orchestrator keeps the list of tracked partitions it had.
  So the tracker holds afterwards exactly the slots it held that are not named by a job
  of the partition whose abort returned or that was not to abort. This is for aborts
  that raise nothing but exceptions of class \<^verbatim>\<open>Exception\<close>.
\<close>

theorem triage_stops_exhausted_partition:
  assumes "status (job_status R (world s)) p \<in> {FAILED, TIMED_OUT}"
      and "has_reached_max_attempt p"
      and "\<forall>k<length (jobs p).
             job_status R (world_at R {RUNNING, TIMED_OUT} (jobs p) (world s) k) (jobs p ! k)
               \<in> {RUNNING, TIMED_OUT}
             \<longrightarrow> (\<forall>e. fst (abort R (jobs p ! k)
                               (world_at R {RUNNING, TIMED_OUT} (jobs p) (world s) k)) = Some e
                      \<longrightarrow> is_Exception e)"
  shows "\<exists>S. triage_loop R (p # rest) current yielded s
               = (Some (AirbyteTracedException system_error
                          (status_by_job_id
                             (job_status R (world_at R {RUNNING, TIMED_OUT} (jobs p) (world s)
                                              (length (jobs p)))) p) []),
                  yielded,
                  s\<lparr>world := world_at R {RUNNING, TIMED_OUT} (jobs p) (world s) (length (jobs p)),
                    job_tracker := (job_tracker s)\<lparr>slots := S\<rparr>\<rparr>)
           \<and> (\<forall>x. x |\<in>| S \<longleftrightarrow>
                  x |\<in>| slots (job_tracker s)
                \<and> \<not> (\<exists>k<length (jobs p). x = JobId (api_job_id (jobs p ! k))
                        \<and> (job_status R (world_at R {RUNNING, TIMED_OUT} (jobs p) (world s) k)
                                (jobs p ! k) \<in> {RUNNING, TIMED_OUT}
                           \<longrightarrow> fst (abort R (jobs p ! k)
                                      (world_at R {RUNNING, TIMED_OUT} (jobs p) (world s) k))
                                 = None)))"
proof -
  let ?W = "world_at R {RUNNING, TIMED_OUT} (jobs p) (world s) (length (jobs p))"
  from stop_partition_loop_spec [OF assms(3)] obtain S where
    eq: "stop_partition_loop R (jobs p) s
           = (None, s\<lparr>world := ?W, job_tracker := (job_tracker s)\<lparr>slots := S\<rparr>\<rparr>)"
    and mem: "\<forall>x. x |\<in>| S \<longleftrightarrow>
                  x |\<in>| slots (job_tracker s)
                \<and> \<not> (\<exists>k<length (jobs p). x = JobId (api_job_id (jobs p ! k))
                        \<and> (job_status R (world_at R {RUNNING, TIMED_OUT} (jobs p) (world s) k)
                                (jobs p ! k) \<in> {RUNNING, TIMED_OUT}
                           \<longrightarrow> fst (abort R (jobs p ! k)
                                      (world_at R {RUNNING, TIMED_OUT} (jobs p) (world s) k))
                                 = None))"
    by blast
  have "triage_loop R (p # rest) current yielded s
          = (Some (AirbyteTracedException system_error (status_by_job_id (job_status R ?W) p) []),
             yielded, s\<lparr>world := ?W, job_tracker := (job_tracker s)\<lparr>slots := S\<rparr>\<rparr>)"
    using assms(1,2) by (auto simp: Let_def stop_partition_def eq process_partitions_with_errors_def)
  with mem show ?thesis
    by blast
qed

text \<open>
  The claim C4 as stated fails where the abort raises: the job of the partition is
  TIMED_OUT at its third attempt, the exception of the abort is swallowed before the
  slot is released, and the tracker still holds the slot \<open>JobId ''a''\<close> when the
  exception of the partition is raised. The exception is the same for the slices 5
  and 6: it does not identify the slice. And where the abort raises an exception that
  is not of class \<^verbatim>\<open>Exception\<close>, that exception propagates and the one of the partition
  is not raised.
\<close>

theorem exhausted_partition_keeps_slot_when_abort_fails:
  "process_running_partitions_and_yield_completed_ones
       (fixed_status_repository TIMED_OUT (Some (Raised 9))) (tracking [(jobA, 3)] 5 [''a''] 1)
     = (Some (AirbyteTracedException system_error [(''a'', TIMED_OUT)] []), [],
        tracking [(jobA, 3)] 5 [''a''] 1)
   \<and> JobId ''a'' |\<in>| slots (job_tracker (tracking [(jobA, 3)] 5 [''a''] 1))
   \<and> fst (process_running_partitions_and_yield_completed_ones
             (fixed_status_repository TIMED_OUT (Some (Raised 9))) (tracking [(jobA, 3)] 6 [''a''] 1))
       = Some (AirbyteTracedException system_error [(''a'', TIMED_OUT)] [])
   \<and> process_running_partitions_and_yield_completed_ones
       (fixed_status_repository TIMED_OUT (Some (RaisedBase 2))) (tracking [(jobA, 3)] 5 [''a''] 1)
     = (Some (RaisedBase 2), [], tracking [(jobA, 3)] 5 [''a''] 1)"
  by (simp add: triage_eval_defs Let_def)

theorem triage_stops_exhausted_partition_witness:
  "status (job_status partly_aborting_repository (world (tracking [(jobA, 3), (jobB, 1)] 5 [''a'', ''b'', ''c''] 3)))
        \<lparr>attempts_per_job = [(jobA, 3), (jobB, 1)], stream_slice = 5\<rparr> \<in> {FAILED, TIMED_OUT}
   \<and> has_reached_max_attempt \<lparr>attempts_per_job = [(jobA, 3), (jobB, 1)], stream_slice = 5\<rparr>
   \<and> fst (abort partly_aborting_repository jobA 0) = Some (Raised 9)
   \<and> fst (abort partly_aborting_repository jobB 0) = None
   \<and> triage_loop partly_aborting_repository
         [\<lparr>attempts_per_job = [(jobA, 3), (jobB, 1)], stream_slice = 5\<rparr>] [] []
         (tracking [(jobA, 3), (jobB, 1)] 5 [''a'', ''b'', ''c''] 3)
       = (Some (AirbyteTracedException system_error [(''a'', TIMED_OUT), (''b'', TIMED_OUT)] []),
          [], tracking [(jobA, 3), (jobB, 1)] 5 [''a'', ''c''] 3)"
proof -
  let ?R = "partly_aborting_repository"
  let ?p = "\<lparr>attempts_per_job = [(jobA, 3), (jobB, 1)], stream_slice = 5\<rparr> :: nat AsyncPartition"
  let ?s = "tracking [(jobA, 3), (jobB, 1)] 5 [''a'', ''b'', ''c''] 3"
  have 1: "status (job_status ?R (world ?s)) ?p \<in> {FAILED, TIMED_OUT}"
    by (simp add: triage_eval_defs partly_aborting_repository_def)
  have 2: "has_reached_max_attempt ?p"
    by (simp add: has_reached_max_attempt_def MAX_NUMBER_OF_ATTEMPTS_def)
  have 3: "\<forall>k<length (jobs ?p).
             job_status ?R (world_at ?R {RUNNING, TIMED_OUT} (jobs ?p) (world ?s) k) (jobs ?p ! k)
               \<in> {RUNNING, TIMED_OUT}
             \<longrightarrow> (\<forall>e. fst (abort ?R (jobs ?p ! k)
                               (world_at ?R {RUNNING, TIMED_OUT} (jobs ?p) (world ?s) k)) = Some e
                      \<longrightarrow> is_Exception e)"
    by (simp add: partly_aborting_repository_def)
  have 4: "fst (abort ?R jobA 0) = Some (Raised 9)" "fst (abort ?R jobB 0) = None"
    by (simp_all add: partly_aborting_repository_def jobA_def jobB_def)
  from triage_stops_exhausted_partition [OF 1 2 3, of "[]" "[]" "[]"]
  obtain S where
    eq: "triage_loop ?R [?p] [] [] ?s
          = (Some (AirbyteTracedException system_error
                     (status_by_job_id
                        (job_status ?R (world_at ?R {RUNNING, TIMED_OUT} (jobs ?p) (world ?s)
                                          (length (jobs ?p)))) ?p) []),
             [],
             ?s\<lparr>world := world_at ?R {RUNNING, TIMED_OUT} (jobs ?p) (world ?s) (length (jobs ?p)),
                 job_tracker := (job_tracker ?s)\<lparr>slots := S\<rparr>\<rparr>)"
    and mem: "\<forall>x. x |\<in>| S \<longleftrightarrow>
                  x |\<in>| slots (job_tracker ?s)
                \<and> \<not> (\<exists>k<length (jobs ?p). x = JobId (api_job_id (jobs ?p ! k))
                        \<and> (job_status ?R (world_at ?R {RUNNING, TIMED_OUT} (jobs ?p) (world ?s) k)
                                (jobs ?p ! k) \<in> {RUNNING, TIMED_OUT}
                           \<longrightarrow> fst (abort ?R (jobs ?p ! k)
                                      (world_at ?R {RUNNING, TIMED_OUT} (jobs ?p) (world ?s) k))
                                 = None))"
    by blast
  have len: "length (jobs ?p) = Suc (Suc 0)"
    by (simp add: jobs_def)
  have S: "S = {|JobId ''a'', JobId ''c''|}"
  proof (rule fset_eqI)
    fix x
    show "x |\<in>| S \<longleftrightarrow> x |\<in>| {|JobId ''a'', JobId ''c''|}"
      unfolding mem [rule_format] len ex_less_Suc_conv
      by (auto simp: jobs_def tracking_def init_def partly_aborting_repository_def
          jobA_def jobB_def)
  qed
  have 5: "triage_loop ?R [?p] [] [] ?s
       = (Some (AirbyteTracedException system_error [(''a'', TIMED_OUT), (''b'', TIMED_OUT)] []),
          [], tracking [(jobA, 3), (jobB, 1)] 5 [''a'', ''c''] 3)"
    unfolding eq S
    by (simp add: status_by_job_id_def jobs_def tracking_def init_def
        partly_aborting_repository_def jobA_def jobB_def)
  from 1 2 4 5 show ?thesis
    by blast
qed

subsection \<open>A partition to retry\<close>


lemma slot_ids_simps [simp]:
  "slot_ids [] = {||}"
  "slot_ids (j # js) = finsert (JobId (api_job_id j)) (slot_ids js)"
  by (simp_all add: slot_ids_def)









end
